theory Spec2Isabelle
  imports Main "HOL-Library.Word"
begin

section \<open>Go values\<close>

text \<open>
  The service is built for \<^verbatim>\<open>GOARCH=amd64\<close> (see the Dockerfile), so Go's \<^verbatim>\<open>int\<close> and
  \<^verbatim>\<open>uint\<close> are 64 bits wide. Both are 64-bit words: arithmetic wraps around, \<open>sint\<close>
  reads a word as an \<^verbatim>\<open>int\<close> and \<open>unat\<close> as a \<^verbatim>\<open>uint\<close>. A Go string is a sequence of
  bytes, which is what \<^typ>\<open>string\<close> is.
\<close>

type_synonym uint = "64 word"
type_synonym int64 = "64 word"
type_synonym rune = nat

subsection \<open>Package unicode/utf8\<close>

definition RuneError :: rune where
  "RuneError = 0xFFFD"

definition RuneSelf :: nat where
  "RuneSelf = 0x80"

definition byte :: "char \<Rightarrow> nat" where
  "byte c = of_char c"

text \<open>A continuation byte lies in \<open>0x80..0xBF\<close>.\<close>

definition between :: "nat \<Rightarrow> nat \<Rightarrow> char \<Rightarrow> bool" where
  "between lo hi c = (lo \<le> byte c \<and> byte c \<le> hi)"

text \<open>
  \<^verbatim>\<open>utf8.DecodeRuneInString\<close>: the first rune of \<open>s\<close> and its width in bytes. An empty string
  gives \<open>(RuneError, 0)\<close>, an encoding that is not valid UTF-8 (a stray continuation byte,
  a truncated sequence, an overlong form, a surrogate, a value above \<open>0x10FFFF\<close>) gives
  \<open>(RuneError, 1)\<close>. The ranges of the second byte are those of the package's table of
  accepted ranges.
\<close>

definition DecodeRuneInString :: "string \<Rightarrow> rune \<times> nat" where
  "DecodeRuneInString s =
     (case s of
        [] \<Rightarrow> (RuneError, 0)
      | c0 # r \<Rightarrow>
          let b0 = byte c0 in
          if b0 < RuneSelf then (b0, 1)
          else if 0xC2 \<le> b0 \<and> b0 \<le> 0xDF then
            (case r of
               c1 # _ \<Rightarrow>
                 if between 0x80 0xBF c1
                 then ((b0 mod 32) * 64 + byte c1 mod 64, 2)
                 else (RuneError, 1)
             | _ \<Rightarrow> (RuneError, 1))
          else if 0xE0 \<le> b0 \<and> b0 \<le> 0xEF then
            (case r of
               c1 # c2 # _ \<Rightarrow>
                 if between (if b0 = 0xE0 then 0xA0 else 0x80) (if b0 = 0xED then 0x9F else 0xBF) c1
                    \<and> between 0x80 0xBF c2
                 then ((b0 mod 16) * 4096 + (byte c1 mod 64) * 64 + byte c2 mod 64, 3)
                 else (RuneError, 1)
             | _ \<Rightarrow> (RuneError, 1))
          else if 0xF0 \<le> b0 \<and> b0 \<le> 0xF4 then
            (case r of
               c1 # c2 # c3 # _ \<Rightarrow>
                 if between (if b0 = 0xF0 then 0x90 else 0x80) (if b0 = 0xF4 then 0x8F else 0xBF) c1
                    \<and> between 0x80 0xBF c2 \<and> between 0x80 0xBF c3
                 then ((b0 mod 8) * 262144 + (byte c1 mod 64) * 4096
                       + (byte c2 mod 64) * 64 + byte c3 mod 64, 4)
                 else (RuneError, 1)
             | _ \<Rightarrow> (RuneError, 1))
          else (RuneError, 1))"

text \<open>\<^verbatim>\<open>utf8.RuneStart\<close>: the byte is not a continuation byte.\<close>

definition RuneStart :: "char \<Rightarrow> bool" where
  "RuneStart c = (\<not> between 0x80 0xBF c)"

text \<open>
  The loop of \<^verbatim>\<open>utf8.DecodeLastRuneInString\<close> that walks back from index \<open>start\<close> while
  \<open>start \<ge> lim\<close>, and stops on a byte that starts a rune. Indices are integers, as in the
  source, because the walk may end one below \<open>lim\<close>.
\<close>

function scan_back :: "string \<Rightarrow> int \<Rightarrow> int \<Rightarrow> int" where
  "scan_back s lim start =
     (if start \<ge> lim then
        (if RuneStart (s ! nat start) then start else scan_back s lim (start - 1))
      else start)"
  by pat_completeness auto
termination
  by (relation "measure (\<lambda>(s, lim, start). nat (start - lim + 1))") auto

declare scan_back.simps [simp del]

text \<open>
  Where \<^verbatim>\<open>utf8.DecodeLastRuneInString\<close> starts to decode: it looks back from the byte before
  the last one, at most \<^verbatim>\<open>UTFMax = 4\<close> bytes from the end, for the start of a rune; a
  negative index is raised to 0.
\<close>

definition last_start :: "string \<Rightarrow> int" where
  "last_start s =
     (let n = int (length s);
          lim = (if n - 4 < 0 then 0 else n - 4);
          start = scan_back s lim (n - 2)
      in if start < 0 then 0 else start)"

text \<open>
  \<^verbatim>\<open>utf8.DecodeLastRuneInString\<close>: the last rune of \<open>s\<close> and its width. When the rune decoded
  at \<open>last_start s\<close> does not end where \<open>s\<close> ends, the last byte alone is an error of
  width 1.
\<close>

definition DecodeLastRuneInString :: "string \<Rightarrow> rune \<times> nat" where
  "DecodeLastRuneInString s =
     (let n = int (length s) in
      if n = 0 then (RuneError, 0)
      else if byte (s ! nat (n - 1)) < RuneSelf then (byte (s ! nat (n - 1)), 1)
      else
        let start = last_start s;
            rs = DecodeRuneInString (drop (nat start) s)
        in if start + int (snd rs) \<noteq> n then (RuneError, 1) else rs)"

text \<open>
  \<^verbatim>\<open>utf8.EncodeRune\<close> (as \<^verbatim>\<open>strings.Builder.WriteRune\<close> uses it): a surrogate or a value
  above \<open>0x10FFFF\<close> is written as \<open>RuneError\<close>.
\<close>

definition EncodeRune :: "rune \<Rightarrow> string" where
  "EncodeRune r =
     (let r = (if (0xD800 \<le> r \<and> r \<le> 0xDFFF) \<or> 0x10FFFF < r then RuneError else r) in
      if r < 0x80 then [char_of r]
      else if r < 0x800 then [char_of (0xC0 + r div 64), char_of (0x80 + r mod 64)]
      else if r < 0x10000 then
        [char_of (0xE0 + r div 4096), char_of (0x80 + (r div 64) mod 64), char_of (0x80 + r mod 64)]
      else
        [char_of (0xF0 + r div 262144), char_of (0x80 + (r div 4096) mod 64),
         char_of (0x80 + (r div 64) mod 64), char_of (0x80 + r mod 64)])"

lemma DecodeRuneInString_width:
  "s \<noteq> [] \<Longrightarrow> 0 < snd (DecodeRuneInString s) \<and> snd (DecodeRuneInString s) \<le> length s"
  by (auto simp: DecodeRuneInString_def Let_def split: list.splits)

lemma scan_back_le: "scan_back s lim start \<le> start"
proof (induction s lim start rule: scan_back.induct)
  case (1 s lim start)
  show ?case
  proof (cases "start \<ge> lim \<and> \<not> RuneStart (s ! nat start)")
    case True
    with 1 have "scan_back s lim (start - 1) \<le> start - 1" by simp
    with True show ?thesis by (subst scan_back.simps) simp
  next
    case False
    then show ?thesis by (subst scan_back.simps) auto
  qed
qed

lemma last_start_bounds: "s \<noteq> [] \<Longrightarrow> 0 \<le> last_start s \<and> last_start s < int (length s)"
  using scan_back_le [of s "if int (length s) - 4 < 0 then 0 else int (length s) - 4"
      "int (length s) - 2"]
  by (simp add: last_start_def Let_def)

lemma DecodeLastRuneInString_width:
  assumes ne: "s \<noteq> []"
  shows "0 < snd (DecodeLastRuneInString s) \<and> snd (DecodeLastRuneInString s) \<le> length s"
proof -
  from last_start_bounds [OF ne] have b: "0 \<le> last_start s" "last_start s < int (length s)"
    by simp_all
  then have "drop (nat (last_start s)) s \<noteq> []" by simp
  from DecodeRuneInString_width [OF this]
  have w: "0 < snd (DecodeRuneInString (drop (nat (last_start s)) s))" by simp
  have "1 \<le> length s" using ne by (cases s) auto
  with w b show ?thesis
    by (auto simp: DecodeLastRuneInString_def Let_def)
qed

subsection \<open>Package unicode\<close>

text \<open>\<^verbatim>\<open>unicode.IsSpace\<close>: the code points with the Unicode property White_Space.\<close>

definition IsSpace :: "rune \<Rightarrow> bool" where
  "IsSpace r =
     (r = 0x09 \<or> r = 0x0A \<or> r = 0x0B \<or> r = 0x0C \<or> r = 0x0D \<or> r = 0x20 \<or> r = 0x85 \<or> r = 0xA0
      \<or> r = 0x1680 \<or> (0x2000 \<le> r \<and> r \<le> 0x200A) \<or> r = 0x2028 \<or> r = 0x2029 \<or> r = 0x202F
      \<or> r = 0x205F \<or> r = 0x3000)"

text \<open>
  \<^verbatim>\<open>unicode.ToUpper\<close> on the runes that \<open>NormalizeName\<close> can pass to it. \<open>NormalizeName\<close>
  upper-cases the one-byte string \<^verbatim>\<open>s[:1]\<close>, whose only rune is an ASCII character or
  \<open>RuneError\<close> (which has no upper case). The case tables of the other code points are
  not part of this development: such a rune is returned as it is.
\<close>

definition unicode_ToUpper :: "rune \<Rightarrow> rune" where
  "unicode_ToUpper r = (if 0x61 \<le> r \<and> r \<le> 0x7A then r - 0x20 else r)"

subsection \<open>Package strings\<close>

text \<open>The table \<^verbatim>\<open>asciiSpace\<close>: tab, line feed, vertical tab, form feed, carriage return, space.\<close>

definition asciiSpace :: "char \<Rightarrow> bool" where
  "asciiSpace c = (byte c = 0x09 \<or> byte c = 0x0A \<or> byte c = 0x0B \<or> byte c = 0x0C
                   \<or> byte c = 0x0D \<or> byte c = 0x20)"

text \<open>
  \<^verbatim>\<open>strings.TrimLeftFunc\<close>: drops the leading runes that satisfy \<open>f\<close> (the \<^verbatim>\<open>range\<close> loop of
  \<^verbatim>\<open>indexFunc\<close> decodes them one by one); the empty string when every rune does.
\<close>

function TrimLeftFunc :: "(rune \<Rightarrow> bool) \<Rightarrow> string \<Rightarrow> string" where
  "TrimLeftFunc f s =
     (if s = [] then []
      else if f (fst (DecodeRuneInString s))
      then TrimLeftFunc f (drop (snd (DecodeRuneInString s)) s)
      else s)"
  by pat_completeness auto
termination
  by (relation "measure (\<lambda>(f, s). length s)") (use DecodeRuneInString_width in auto)

declare TrimLeftFunc.simps [simp del]

text \<open>
  \<^verbatim>\<open>lastIndexFunc(s, f, false)\<close>: the index of the last rune that does not satisfy \<open>f\<close>;
  \<open>None\<close> for the source's \<open>-1\<close>. The loop walks back with an index \<open>i\<close> that starts at
  \<^verbatim>\<open>len(s)\<close> and decodes the last rune of \<^verbatim>\<open>s[0:i]\<close>; the argument \<open>p\<close> is that prefix, and
  \<open>i\<close> is its length.
\<close>

function lastIndexFunc :: "(rune \<Rightarrow> bool) \<Rightarrow> string \<Rightarrow> nat option" where
  "lastIndexFunc f p =
     (if p = [] then None
      else if f (fst (DecodeLastRuneInString p))
      then lastIndexFunc f (take (length p - snd (DecodeLastRuneInString p)) p)
      else Some (length p - snd (DecodeLastRuneInString p)))"
  by pat_completeness auto
termination
  by (relation "measure (\<lambda>(f, p). length p)") (use DecodeLastRuneInString_width in auto)

declare lastIndexFunc.simps [simp del]

text \<open>
  \<^verbatim>\<open>strings.TrimRightFunc\<close>: cuts \<open>s\<close> after the last rune that does not satisfy \<open>f\<close>.
\<close>

definition TrimRightFunc :: "(rune \<Rightarrow> bool) \<Rightarrow> string \<Rightarrow> string" where
  "TrimRightFunc f s =
     (case lastIndexFunc f s of
        None \<Rightarrow> take 0 s
      | Some i \<Rightarrow>
          if byte (s ! i) \<ge> RuneSelf
          then take (i + snd (DecodeRuneInString (drop i s))) s
          else take (i + 1) s)"

definition TrimFunc :: "(rune \<Rightarrow> bool) \<Rightarrow> string \<Rightarrow> string" where
  "TrimFunc f s = TrimRightFunc f (TrimLeftFunc f s)"

text \<open>
  \<^verbatim>\<open>strings.TrimSpace\<close>. The second loop works on \<^verbatim>\<open>s[start:]\<close>: \<open>stop\<close> counts from
  \<open>start\<close>. Both loops leave to the Unicode-aware functions at the first byte that is not
  ASCII.
\<close>

fun TrimSpace_stop :: "string \<Rightarrow> nat \<Rightarrow> string" where
  "TrimSpace_stop t 0 = take 0 t"
| "TrimSpace_stop t (Suc k) =
     (if byte (t ! k) \<ge> RuneSelf then TrimRightFunc IsSpace (take (Suc k) t)
      else if \<not> asciiSpace (t ! k) then take (Suc k) t
      else TrimSpace_stop t k)"

fun TrimSpace_start :: "string \<Rightarrow> string" where
  "TrimSpace_start [] = TrimSpace_stop [] 0"
| "TrimSpace_start (c # cs) =
     (if byte c \<ge> RuneSelf then TrimFunc IsSpace (c # cs)
      else if \<not> asciiSpace c then TrimSpace_stop (c # cs) (length (c # cs))
      else TrimSpace_start cs)"

definition TrimSpace :: "string \<Rightarrow> string" where
  "TrimSpace s = TrimSpace_start s"

text \<open>
  \<^verbatim>\<open>strings.Map\<close>: every rune of \<open>s\<close>, as the \<^verbatim>\<open>range\<close> loop decodes it, is replaced by the
  encoding of its image. A byte that is not valid UTF-8 decodes to \<open>RuneError\<close> with width
  1, so it is replaced by the three bytes of \<open>U+FFFD\<close>. (No mapping here returns a negative
  rune, the case in which the source drops the character.)
\<close>

function strings_Map :: "(rune \<Rightarrow> rune) \<Rightarrow> string \<Rightarrow> string" where
  "strings_Map mapping s =
     (if s = [] then []
      else EncodeRune (mapping (fst (DecodeRuneInString s)))
           @ strings_Map mapping (drop (snd (DecodeRuneInString s)) s))"
  by pat_completeness auto
termination
  by (relation "measure (\<lambda>(f, s). length s)") (use DecodeRuneInString_width in auto)

declare strings_Map.simps [simp del]

text \<open>
  \<^verbatim>\<open>strings.ToUpper\<close>: a string of ASCII bytes has its letters \<open>a..z\<close> moved to \<open>A..Z\<close>; any
  other string goes through \<^verbatim>\<open>Map(unicode.ToUpper, s)\<close>.
\<close>

definition ToUpper :: "string \<Rightarrow> string" where
  "ToUpper s =
     (if \<forall>c \<in> set s. byte c < RuneSelf
      then map (\<lambda>c. if 0x61 \<le> byte c \<and> byte c \<le> 0x7A then char_of (byte c - 0x20) else c) s
      else strings_Map unicode_ToUpper s)"

section \<open>Package core\<close>

text \<open>
  \<^verbatim>\<open>core.NormalizeName\<close>: \<^verbatim>\<open>s[:1]\<close> is the first byte of the trimmed string and \<^verbatim>\<open>s[1:]\<close>
  the rest of its bytes.
\<close>

definition NormalizeName :: "string \<Rightarrow> string" where
  "NormalizeName s0 =
     (let s = TrimSpace s0 in
      if s = [] then s
      else ToUpper (take 1 s) @ drop 1 s)"

section \<open>Errors and models\<close>

text \<open>
  A Go \<^verbatim>\<open>error\<close> value. \<open>ErrorsNew msg\<close> is what \<^verbatim>\<open>errors.New(msg)\<close> returns (two such
  values are told apart by their message only: no caller in the repository compares them
  by identity). \<open>ErrRecordNotFound\<close> is \<^verbatim>\<open>gorm.ErrRecordNotFound\<close> and \<open>RedisNil\<close> is
  \<^verbatim>\<open>redis.Nil\<close>. The other constructors are the errors that the database driver, the Redis
  client, bcrypt and the JWT library (when it signs and when it parses a token) make, each
  known by its message.
\<close>

datatype error =
    ErrorsNew string
  | ErrRecordNotFound
  | RedisNil
  | DriverError string
  | RedisError string
  | BcryptError string
  | SigningError string
  | TokenError string

text \<open>The method \<^verbatim>\<open>Error()\<close>.\<close>

fun Error_msg :: "error \<Rightarrow> string" where
  "Error_msg (ErrorsNew m) = m"
| "Error_msg ErrRecordNotFound = ''record not found''"
| "Error_msg RedisNil = ''redis: nil''"
| "Error_msg (DriverError m) = m"
| "Error_msg (RedisError m) = m"
| "Error_msg (BcryptError m) = m"
| "Error_msg (SigningError m) = m"
| "Error_msg (TokenError m) = m"

text \<open>
  A \<^verbatim>\<open>time.Time\<close> is an instant, counted in nanoseconds from the zero \<^verbatim>\<open>Time\<close> (January 1,
  year 1, 00:00 UTC); a \<^verbatim>\<open>time.Duration\<close> is a number of nanoseconds.
\<close>

type_synonym Time = int
type_synonym Duration = int

definition Minute :: Duration where
  "Minute = 60 * 1000000000"

text \<open>\<^verbatim>\<open>models.User\<close>.\<close>

record User =
  ID :: uint
  Name :: string
  Email :: string
  Password :: string
  CreatedAt :: Time
  UpdatedAt :: Time

text \<open>\<^verbatim>\<open>models.RegisterRequest\<close>, \<^verbatim>\<open>models.LoginRequest\<close> and \<^verbatim>\<open>models.UpdateUserRequest\<close> (a
  \<^verbatim>\<open>nil\<close> pointer is \<open>None\<close>). The fields carry the name of their struct, since two
  records cannot share a field name.\<close>

record RegisterRequest =
  Register_Name :: string
  Register_Email :: string
  Register_Password :: string

record LoginRequest =
  Login_Email :: string
  Login_Password :: string

record UpdateUserRequest =
  Update_Name :: "string option"
  Update_Email :: "string option"
  Update_Password :: "string option"

text \<open>\<^verbatim>\<open>models.PagedUsers\<close>.\<close>

record PagedUsers =
  Items :: "User list"
  Total :: int64
  Page :: int64
  Limit :: int64

subsection \<open>The JSON form of a user\<close>

text \<open>
  A byte string as the service hands it to Redis or gets it back, kept up to what
  \<^verbatim>\<open>encoding/json\<close> makes of it for a \<^verbatim>\<open>models.User\<close>. \<open>UserJSON id name email created_at
  updated_at\<close> stands for a JSON text that \<^verbatim>\<open>json.Unmarshal\<close> decodes into a \<^verbatim>\<open>User\<close> without
  error, leaving these values in the fields that have a JSON name; \<open>NotUserJSON s\<close> is any
  other text \<open>s\<close>, which \<^verbatim>\<open>json.Unmarshal\<close> rejects. The struct tags of \<^verbatim>\<open>models.User\<close> name
  five members, \<^verbatim>\<open>id\<close>, \<^verbatim>\<open>name\<close>, \<^verbatim>\<open>email\<close>, \<^verbatim>\<open>created_at\<close> and \<^verbatim>\<open>updated_at\<close>; the tag of
  \<^verbatim>\<open>Password\<close> is \<^verbatim>\<open>json:"-"\<close>, so that field is neither written nor read.
\<close>

datatype bytes =
    UserJSON uint string string Time Time
  | NotUserJSON string

text \<open>\<^verbatim>\<open>json.Marshal(u)\<close> for a \<^verbatim>\<open>*models.User\<close>: the object of the five tagged fields.\<close>

definition json_Marshal :: "User \<Rightarrow> bytes" where
  "json_Marshal u = UserJSON (ID u) (Name u) (Email u) (CreatedAt u) (UpdatedAt u)"

text \<open>
  \<^verbatim>\<open>json.Unmarshal(b, &u)\<close> with \<^verbatim>\<open>var u models.User\<close>: \<open>None\<close> when it returns an error.
  The destination starts as the zero \<^verbatim>\<open>User\<close>, and \<^verbatim>\<open>Password\<close> stays empty.
\<close>

definition json_Unmarshal :: "bytes \<Rightarrow> User option" where
  "json_Unmarshal b =
     (case b of
        UserJSON i n e c u \<Rightarrow>
          Some \<lparr>ID = i, Name = n, Email = e, Password = [], CreatedAt = c, UpdatedAt = u\<rparr>
      | NotUserJSON _ \<Rightarrow> None)"

text \<open>\<^verbatim>\<open>len(b)\<close> for such a byte string: a JSON text is never empty.\<close>

definition len_positive :: "bytes \<Rightarrow> bool" where
  "len_positive b = (case b of UserJSON _ _ _ _ _ \<Rightarrow> True | NotUserJSON s \<Rightarrow> 0 < length s)"

subsection \<open>Decimal numbers\<close>

function decimal :: "nat \<Rightarrow> string" where
  "decimal n = (if n < 10 then [char_of (0x30 + n)] else decimal (n div 10) @ [char_of (0x30 + n mod 10)])"
  by pat_completeness auto
termination
  by (relation "measure id") auto

declare decimal.simps [simp del]

text \<open>\<^verbatim>\<open>fmt.Sprint(id)\<close> and the verb \<^verbatim>\<open>%d\<close> for a \<^verbatim>\<open>uint\<close>.\<close>

definition Sprint :: "uint \<Rightarrow> string" where
  "Sprint n = decimal (unat n)"

section \<open>The collaborators of the service\<close>

text \<open>
  The repository is an interface, the Redis client and the logger are pointers that may be
  \<^verbatim>\<open>nil\<close>, and bcrypt, the clock and the JWT library are packages. None of them is code of
  the service: each is a function on the state \<open>'s\<close> of the world outside the service (the
  database, the Redis server, the source of random salts, the clock). A method that fills
  the struct behind a pointer (\<^verbatim>\<open>Create\<close> sets the identifier and the timestamps, \<^verbatim>\<open>Update\<close>
  the modification time) returns the struct as it leaves it.
\<close>

record 's UserRepository =
  Create :: "User \<Rightarrow> 's \<Rightarrow> (error + User) \<times> 's"
  FindByEmail :: "string \<Rightarrow> 's \<Rightarrow> (error + User) \<times> 's"
  FindByID :: "uint \<Rightarrow> 's \<Rightarrow> (error + User) \<times> 's"
  Update :: "User \<Rightarrow> 's \<Rightarrow> (error + User) \<times> 's"
  Delete :: "uint \<Rightarrow> 's \<Rightarrow> error option \<times> 's"
  List :: "int64 \<Rightarrow> int64 \<Rightarrow> 's \<Rightarrow> (error + User list \<times> int64) \<times> 's"

text \<open>The three commands of \<^verbatim>\<open>*redis.Client\<close> that the service sends.\<close>

record 's redis_Client =
  Get :: "string \<Rightarrow> 's \<Rightarrow> (error + bytes) \<times> 's"
  Set :: "string \<Rightarrow> bytes \<Rightarrow> Duration \<Rightarrow> 's \<Rightarrow> error option \<times> 's"
  Del :: "string \<Rightarrow> 's \<Rightarrow> error option \<times> 's"

text \<open>
  \<^verbatim>\<open>redislog.Logger\<close>: its methods \<^verbatim>\<open>Info\<close>, \<^verbatim>\<open>Warn\<close> and \<^verbatim>\<open>Error\<close> take a message and a map of
  metadata, push an entry to a Redis list and return nothing. The arguments are the level,
  the message and the metadata (in the order of the map literal).
\<close>

type_synonym meta = "(string \<times> string) list"
type_synonym 's Logger = "string \<Rightarrow> string \<Rightarrow> meta \<Rightarrow> 's \<Rightarrow> 's"

text \<open>
  The packages: \<^verbatim>\<open>bcrypt.GenerateFromPassword\<close> (it draws a random salt),
  \<^verbatim>\<open>bcrypt.CompareHashAndPassword\<close>, \<^verbatim>\<open>time.Now()\<close>, and the signing of the four claims
  \<^verbatim>\<open>sub\<close>, \<^verbatim>\<open>exp\<close>, \<^verbatim>\<open>iat\<close> and \<^verbatim>\<open>eml\<close> with HS256 and a secret
  (\<^verbatim>\<open>jwt.NewWithClaims(...).SignedString\<close>).
\<close>

record 's packages =
  bcrypt_GenerateFromPassword :: "string \<Rightarrow> nat \<Rightarrow> 's \<Rightarrow> (error + string) \<times> 's"
  bcrypt_CompareHashAndPassword :: "string \<Rightarrow> string \<Rightarrow> error option"
  time_Now :: "'s \<Rightarrow> Time \<times> 's"
  jwt_SignedString :: "uint \<Rightarrow> int64 \<Rightarrow> int64 \<Rightarrow> string \<Rightarrow> string \<Rightarrow> error + string"

text \<open>\<^verbatim>\<open>services.userService\<close>.\<close>

record 's userService =
  repo :: "'s UserRepository"
  rdb :: "'s redis_Client option"
  log :: "'s Logger option"

text \<open>
  What the service does to its collaborators, in order: each call with its arguments and
  with what it returned (\<open>is_Create\<close>, \<open>is_Set\<close> and so on tell the kind of a call). The
  service runs in a world that holds the outside state and the calls made so far.
\<close>

datatype call =
    is_Create: Call_Create User "error + User"
  | is_FindByEmail: Call_FindByEmail string "error + User"
  | is_FindByID: Call_FindByID uint "error + User"
  | is_Update: Call_Update User "error + User"
  | is_Delete: Call_Delete uint "error option"
  | is_List: Call_List int64 int64 "error + User list \<times> int64"
  | is_Get: Call_Get string "error + bytes"
  | is_Set: Call_Set string bytes Duration "error option"
  | is_Del: Call_Del string "error option"
  | is_Log: Call_Log string string meta
  | is_HashPassword: Call_HashPassword string "error + string"
  | is_Now: Call_Now Time

record 's world =
  outside :: 's
  calls :: "call list"

definition call :: "('a \<Rightarrow> call) \<Rightarrow> ('s \<Rightarrow> 'a \<times> 's) \<Rightarrow> 's world \<Rightarrow> 'a \<times> 's world" where
  "call c f w = (case f (outside w) of (r, x) \<Rightarrow> (r, \<lparr>outside = x, calls = calls w @ [c r]\<rparr>))"

text \<open>The calls made from the world \<open>w\<close> to the later world \<open>w'\<close>.\<close>

definition made :: "'s world \<Rightarrow> 's world \<Rightarrow> call list" where
  "made w w' = drop (length (calls w)) (calls w')"

text \<open>A call of the logger, guarded by \<^verbatim>\<open>if s.log != nil\<close> as everywhere in the service.\<close>

definition logs :: "'s userService \<Rightarrow> string \<Rightarrow> string \<Rightarrow> meta \<Rightarrow> 's world \<Rightarrow> 's world" where
  "logs s level msg m w =
     (case log s of
        None \<Rightarrow> w
      | Some l \<Rightarrow> \<lparr>outside = l level msg m (outside w), calls = calls w @ [Call_Log level msg m]\<rparr>)"

section \<open>Package utils\<close>

text \<open>\<^verbatim>\<open>bcrypt.DefaultCost\<close>.\<close>

definition DefaultCost :: nat where
  "DefaultCost = 10"

definition HashPassword :: "'s packages \<Rightarrow> string \<Rightarrow> 's world \<Rightarrow> (error + string) \<times> 's world" where
  "HashPassword P raw w =
     call (Call_HashPassword raw) (bcrypt_GenerateFromPassword P raw DefaultCost) w"

definition CheckPassword :: "'s packages \<Rightarrow> string \<Rightarrow> string \<Rightarrow> bool" where
  "CheckPassword P hash raw = (bcrypt_CompareHashAndPassword P hash raw = None)"

section \<open>Package services\<close>

definition userCacheTTL :: Duration where
  "userCacheTTL = 10 * Minute"

definition cacheKeyUser :: "uint \<Rightarrow> string" where
  "cacheKeyUser uid = ''user:'' @ Sprint uid"

subsection \<open>Register\<close>

text \<open>
  The end of \<^verbatim>\<open>Register\<close>, after the insert: the cache is warmed when Redis is configured
  (the result of \<^verbatim>\<open>Set\<close> is dropped), and the success is logged.
\<close>

definition Register_warm :: "'s userService \<Rightarrow> User \<Rightarrow> 's world \<Rightarrow> 's world" where
  "Register_warm s u w =
     (case rdb s of
        None \<Rightarrow> w
      | Some r \<Rightarrow>
          let b = json_Marshal u in
          if len_positive b then
            (case call (Call_Set (cacheKeyUser (ID u)) b userCacheTTL)
                    (Set r (cacheKeyUser (ID u)) b userCacheTTL) w of
               (_, w1) \<Rightarrow>
                 logs s ''info'' ''cache warm after register''
                   [(''key'', cacheKeyUser (ID u)), (''user_id'', Sprint (ID u))] w1)
          else w)"

text \<open>
  The part of \<^verbatim>\<open>Register\<close> that follows a look-up without a match: the hash, the insert,
  the warming of the cache.
\<close>

definition Register_insert ::
  "'s packages \<Rightarrow> 's userService \<Rightarrow> RegisterRequest \<Rightarrow> 's world \<Rightarrow> (error + User) \<times> 's world"
where
  "Register_insert P s req w1 =
     (case HashPassword P (Register_Password req) w1 of
        (Inl err, w2) \<Rightarrow>
          (Inl err,
           logs s ''error'' ''register hash error''
             [(''email'', Register_Email req), (''err'', Error_msg err)] w2)
      | (Inr hash, w2) \<Rightarrow>
          let u = \<lparr>ID = 0, Name = NormalizeName (Register_Name req),
                   Email = Register_Email req, Password = hash,
                   CreatedAt = 0, UpdatedAt = 0\<rparr>
          in (case call (Call_Create u) (Create (repo s) u) w2 of
                (Inl err, w3) \<Rightarrow>
                  (Inl err,
                   logs s ''error'' ''register db create error''
                     [(''email'', Register_Email req), (''err'', Error_msg err)] w3)
              | (Inr u', w3) \<Rightarrow>
                  (Inr u',
                   logs s ''info'' ''register success''
                     [(''user_id'', Sprint (ID u')), (''email'', Email u')]
                     (Register_warm s u' w3))))"

text \<open>
  \<^verbatim>\<open>Register\<close>: the look-up by email is a match exactly when it returns no error; any
  error leads to the insert.
\<close>

definition Register ::
  "'s packages \<Rightarrow> 's userService \<Rightarrow> RegisterRequest \<Rightarrow> 's world \<Rightarrow> (error + User) \<times> 's world"
where
  "Register P s req w =
     (case call (Call_FindByEmail (Register_Email req)) (FindByEmail (repo s) (Register_Email req)) w of
        (Inr _, w1) \<Rightarrow>
          (Inl (ErrorsNew ''email already exists''),
           logs s ''warn'' ''register email exists'' [(''email'', Register_Email req)] w1)
      | (Inl _, w1) \<Rightarrow> Register_insert P s req w1)"

subsection \<open>Login\<close>

text \<open>
  \<^verbatim>\<open>Time.Unix()\<close>: the seconds since January 1, 1970 UTC, which is 62135596800 seconds
  after the zero \<^verbatim>\<open>Time\<close>.
\<close>

definition Unix :: "Time \<Rightarrow> int64" where
  "Unix t = word_of_int (t div 1000000000 - 62135596800)"

text \<open>
  \<^verbatim>\<open>Login\<close> returns the empty string with every error, so its result is the error or the
  token. The clock is read twice, for \<^verbatim>\<open>exp\<close> and for \<^verbatim>\<open>iat\<close>.
\<close>

definition Login ::
  "'s packages \<Rightarrow> 's userService \<Rightarrow> LoginRequest \<Rightarrow> string \<Rightarrow> Duration
     \<Rightarrow> 's world \<Rightarrow> (error + string) \<times> 's world"
where
  "Login P s req jwtSecret exp w =
     (case call (Call_FindByEmail (Login_Email req)) (FindByEmail (repo s) (Login_Email req)) w of
        (Inl _, w1) \<Rightarrow>
          (Inl (ErrorsNew ''invalid credentials''),
           logs s ''warn'' ''login user not found'' [(''email'', Login_Email req)] w1)
      | (Inr u, w1) \<Rightarrow>
          if \<not> CheckPassword P (Password u) (Login_Password req) then
            (Inl (ErrorsNew ''invalid credentials''),
             logs s ''warn'' ''login wrong password'' [(''email'', Login_Email req)] w1)
          else
            (case call Call_Now (time_Now P) w1 of
               (now1, w2) \<Rightarrow>
                 (case call Call_Now (time_Now P) w2 of
                    (now2, w3) \<Rightarrow>
                      (case jwt_SignedString P (ID u) (Unix (now1 + exp)) (Unix now2) (Email u)
                              jwtSecret of
                         Inl err \<Rightarrow>
                           (Inl err,
                            logs s ''error'' ''login token sign error''
                              [(''email'', Email u), (''err'', Error_msg err)] w3)
                       | Inr token \<Rightarrow>
                           (Inr token,
                            logs s ''info'' ''login success''
                              [(''user_id'', Sprint (ID u)), (''email'', Email u)] w3)))))"

subsection \<open>GetByID\<close>

text \<open>
  The first half of \<^verbatim>\<open>GetByID\<close>: the look into the cache. \<open>Some u\<close> is the early return of
  a user decoded from the cache; \<open>None\<close> means that the function goes on to the database
  (no Redis, a miss, an error of Redis, or a value that does not decode).
\<close>

definition GetByID_cache :: "'s userService \<Rightarrow> uint \<Rightarrow> 's world \<Rightarrow> User option \<times> 's world" where
  "GetByID_cache s uid w =
     (case rdb s of
        None \<Rightarrow> (None, w)
      | Some r \<Rightarrow>
          let key = cacheKeyUser uid;
              w1 = logs s ''info'' ''cache try GET'' [(''key'', key), (''user_id'', Sprint uid)] w
          in (case call (Call_Get key) (Get r key) w1 of
                (Inr val, w2) \<Rightarrow>
                  (case json_Unmarshal val of
                     Some u \<Rightarrow>
                       (Some u,
                        logs s ''info'' ''cache HIT'' [(''key'', key), (''user_id'', Sprint uid)] w2)
                   | None \<Rightarrow>
                       (None, logs s ''warn'' ''cache unmarshal failed'' [(''key'', key)] w2))
              | (Inl err, w2) \<Rightarrow>
                  if err = RedisNil then
                    (None, logs s ''warn'' ''cache MISS'' [(''key'', key), (''user_id'', Sprint uid)] w2)
                  else
                    (None,
                     logs s ''error'' ''cache GET error'' [(''key'', key), (''err'', Error_msg err)] w2)))"

text \<open>The write of the fetched user into the cache, when Redis is configured.\<close>

definition GetByID_store :: "'s userService \<Rightarrow> uint \<Rightarrow> User \<Rightarrow> 's world \<Rightarrow> 's world" where
  "GetByID_store s uid u w =
     (case rdb s of
        None \<Rightarrow> w
      | Some r \<Rightarrow>
          let key = cacheKeyUser uid; b = json_Marshal u in
          if len_positive b then
            (case call (Call_Set key b userCacheTTL) (Set r key b userCacheTTL) w of
               (None, w1) \<Rightarrow>
                 logs s ''info'' ''cache SET''
                   [(''key'', key), (''user_id'', Sprint uid), (''ttl'', ''10m0s'')] w1
             | (Some err, w1) \<Rightarrow>
                 logs s ''error'' ''cache SET error'' [(''key'', key), (''err'', Error_msg err)] w1)
          else w)"

text \<open>The second half: the fallback to the database.\<close>

definition GetByID_db :: "'s userService \<Rightarrow> uint \<Rightarrow> 's world \<Rightarrow> (error + User) \<times> 's world" where
  "GetByID_db s uid w =
     (case call (Call_FindByID uid) (FindByID (repo s) uid) w of
        (Inl err, w1) \<Rightarrow>
          (Inl err,
           logs s ''error'' ''db fetch error in GetByID''
             [(''user_id'', Sprint uid), (''err'', Error_msg err)] w1)
      | (Inr u, w1) \<Rightarrow>
          (Inr u,
           GetByID_store s uid u
             (logs s ''info'' ''db fetch success in GetByID'' [(''user_id'', Sprint uid)] w1)))"

definition GetByID :: "'s userService \<Rightarrow> uint \<Rightarrow> 's world \<Rightarrow> (error + User) \<times> 's world" where
  "GetByID s uid w =
     (case GetByID_cache s uid w of
        (Some u, w1) \<Rightarrow> (Inr u, w1)
      | (None, w1) \<Rightarrow> GetByID_db s uid w1)"

subsection \<open>CreateUser and GetUser\<close>

definition CreateUser ::
  "'s packages \<Rightarrow> 's userService \<Rightarrow> RegisterRequest \<Rightarrow> 's world \<Rightarrow> (error + User) \<times> 's world"
where
  "CreateUser P s req w =
     Register P s req (logs s ''info'' ''CreateUser called'' [(''email'', Register_Email req)] w)"

definition GetUser :: "'s userService \<Rightarrow> uint \<Rightarrow> 's world \<Rightarrow> (error + User) \<times> 's world" where
  "GetUser s uid w = GetByID s uid (logs s ''info'' ''GetUser called'' [(''user_id'', Sprint uid)] w)"

subsection \<open>UpdateUser\<close>

text \<open>
  The change of the email: only when the request has one that differs from the stored
  one, and after a look-up that must fail for the change to go on.
\<close>

definition UpdateUser_email ::
  "'s userService \<Rightarrow> UpdateUserRequest \<Rightarrow> User \<Rightarrow> 's world \<Rightarrow> (error + User) \<times> 's world"
where
  "UpdateUser_email s req u w =
     (case Update_Email req of
        None \<Rightarrow> (Inr u, w)
      | Some e \<Rightarrow>
          if e \<noteq> Email u then
            (case call (Call_FindByEmail e) (FindByEmail (repo s) e) w of
               (Inr _, w1) \<Rightarrow>
                 (Inl (ErrorsNew ''email already exists''),
                  logs s ''warn'' ''UpdateUser email exists'' [(''email'', e)] w1)
             | (Inl _, w1) \<Rightarrow> (Inr (u\<lparr>Email := e\<rparr>), w1))
          else (Inr u, w))"

definition UpdateUser_password ::
  "'s packages \<Rightarrow> 's userService \<Rightarrow> uint \<Rightarrow> UpdateUserRequest \<Rightarrow> User \<Rightarrow> 's world
     \<Rightarrow> (error + User) \<times> 's world"
where
  "UpdateUser_password P s uid req u w =
     (case Update_Password req of
        None \<Rightarrow> (Inr u, w)
      | Some p \<Rightarrow>
          (case HashPassword P p w of
             (Inl err, w1) \<Rightarrow>
               (Inl err,
                logs s ''error'' ''UpdateUser hash error''
                  [(''user_id'', Sprint uid), (''err'', Error_msg err)] w1)
           | (Inr hash, w1) \<Rightarrow> (Inr (u\<lparr>Password := hash\<rparr>), w1)))"

text \<open>The refresh of the cache: a delete and a set, both with their result dropped.\<close>

definition UpdateUser_refresh :: "'s userService \<Rightarrow> uint \<Rightarrow> User \<Rightarrow> 's world \<Rightarrow> 's world" where
  "UpdateUser_refresh s uid u w =
     (case rdb s of
        None \<Rightarrow> w
      | Some r \<Rightarrow>
          let key = cacheKeyUser uid;
              w1 = snd (call (Call_Del key) (Del r key) w);
              b = json_Marshal u;
              w2 = (if len_positive b
                    then snd (call (Call_Set key b userCacheTTL) (Set r key b userCacheTTL) w1)
                    else w1)
          in logs s ''info'' ''UpdateUser cache refreshed'' [(''key'', key)] w2)"

definition UpdateUser ::
  "'s packages \<Rightarrow> 's userService \<Rightarrow> uint \<Rightarrow> UpdateUserRequest \<Rightarrow> 's world
     \<Rightarrow> (error + User) \<times> 's world"
where
  "UpdateUser P s uid req w =
     (case call (Call_FindByID uid) (FindByID (repo s) uid)
             (logs s ''info'' ''UpdateUser called'' [(''user_id'', Sprint uid)] w) of
        (Inl err, w1) \<Rightarrow>
          (Inl err,
           logs s ''error'' ''UpdateUser not found''
             [(''user_id'', Sprint uid), (''err'', Error_msg err)] w1)
      | (Inr u, w1) \<Rightarrow>
          let u1 = (case Update_Name req of
                      None \<Rightarrow> u
                    | Some n \<Rightarrow> u\<lparr>Name := NormalizeName n\<rparr>)
          in (case UpdateUser_email s req u1 w1 of
                (Inl err, w2) \<Rightarrow> (Inl err, w2)
              | (Inr u2, w2) \<Rightarrow>
                  (case UpdateUser_password P s uid req u2 w2 of
                     (Inl err, w3) \<Rightarrow> (Inl err, w3)
                   | (Inr u3, w3) \<Rightarrow>
                       (case call (Call_Update u3) (Update (repo s) u3) w3 of
                          (Inl err, w4) \<Rightarrow>
                            (Inl err,
                             logs s ''error'' ''UpdateUser db error''
                               [(''user_id'', Sprint uid), (''err'', Error_msg err)] w4)
                        | (Inr u4, w4) \<Rightarrow> (Inr u4, UpdateUser_refresh s uid u4 w4)))))"

subsection \<open>DeleteUser\<close>

definition DeleteUser :: "'s userService \<Rightarrow> uint \<Rightarrow> 's world \<Rightarrow> error option \<times> 's world" where
  "DeleteUser s uid w =
     (case call (Call_Delete uid) (Delete (repo s) uid)
             (logs s ''info'' ''DeleteUser called'' [(''user_id'', Sprint uid)] w) of
        (Some err, w1) \<Rightarrow>
          (Some err,
           logs s ''error'' ''DeleteUser db error''
             [(''user_id'', Sprint uid), (''err'', Error_msg err)] w1)
      | (None, w1) \<Rightarrow>
          let w2 = (case rdb s of
                      None \<Rightarrow> w1
                    | Some r \<Rightarrow> snd (call (Call_Del (cacheKeyUser uid)) (Del r (cacheKeyUser uid)) w1))
          in (None, logs s ''info'' ''DeleteUser success'' [(''user_id'', Sprint uid)] w2))"

subsection \<open>ListUsers\<close>

text \<open>\<^verbatim>\<open>fmt.Sprint\<close> of an \<^verbatim>\<open>int\<close> or \<^verbatim>\<open>int64\<close>.\<close>

definition Sprint_int :: "int64 \<Rightarrow> string" where
  "Sprint_int n = (if sint n < 0 then CHR ''-'' # decimal (nat (- sint n)) else decimal (nat (sint n)))"

text \<open>
  The two assignments that sanitize \<open>page\<close> and \<open>limit\<close>. The comparisons are those of
  signed 64-bit integers.
\<close>

definition clamp_page :: "int64 \<Rightarrow> int64" where
  "clamp_page page = (if page <s 1 then 1 else page)"

definition clamp_limit :: "int64 \<Rightarrow> int64" where
  "clamp_limit limit = (if limit \<le>s 0 \<or> 100 <s limit then 10 else limit)"

definition ListUsers ::
  "'s userService \<Rightarrow> int64 \<Rightarrow> int64 \<Rightarrow> 's world \<Rightarrow> (error + PagedUsers) \<times> 's world"
where
  "ListUsers s page0 limit0 w =
     (let w0 = logs s ''info'' ''ListUsers called''
                 [(''page'', Sprint_int page0), (''limit'', Sprint_int limit0)] w;
          page = clamp_page page0;
          limit = clamp_limit limit0;
          offset = (page - 1) * limit
      in (case call (Call_List offset limit) (List (repo s) offset limit) w0 of
            (Inl err, w1) \<Rightarrow>
              (Inl err, logs s ''error'' ''ListUsers db error'' [(''err'', Error_msg err)] w1)
          | (Inr (items, n), w1) \<Rightarrow>
              (Inr \<lparr>Items = items, Total = n, Page = page, Limit = limit\<rparr>,
               logs s ''info'' ''ListUsers success''
                 [(''count'', decimal (length items)), (''total'', Sprint_int n)] w1)))"

section \<open>Package strconv\<close>

datatype NumError = ErrSyntax | ErrRange

definition is_digit :: "char \<Rightarrow> bool" where
  "is_digit c = (0x30 \<le> byte c \<and> byte c \<le> 0x39)"

text \<open>
  The loop of \<^verbatim>\<open>strconv.ParseUint(s, 10, 64)\<close>: a byte that is not a digit is a syntax
  error, a value above \<open>2^64 - 1\<close> a range error, whichever comes first from the left.
\<close>

fun ParseUint_loop :: "nat \<Rightarrow> string \<Rightarrow> NumError + nat" where
  "ParseUint_loop n [] = Inr n"
| "ParseUint_loop n (c # cs) =
     (if \<not> is_digit c then Inl ErrSyntax
      else if n \<ge> (2 ^ 64 - 1) div 10 + 1 then Inl ErrRange
      else if n * 10 + (byte c - 0x30) > 2 ^ 64 - 1 then Inl ErrRange
      else ParseUint_loop (n * 10 + (byte c - 0x30)) cs)"

definition ParseUint :: "string \<Rightarrow> NumError + nat" where
  "ParseUint s = (if s = [] then Inl ErrSyntax else ParseUint_loop 0 s)"

text \<open>
  \<^verbatim>\<open>strconv.Atoi\<close> for a 64-bit \<^verbatim>\<open>int\<close>. Its fast path for short strings and
  \<^verbatim>\<open>ParseInt(s, 10, 0)\<close> accept the same strings with the same values: an optional sign,
  then decimal digits, with a value from \<open>-2^63\<close> to \<open>2^63 - 1\<close>.
\<close>

definition Atoi :: "string \<Rightarrow> NumError + int64" where
  "Atoi s0 =
     (case s0 of
        [] \<Rightarrow> Inl ErrSyntax
      | c # cs \<Rightarrow>
          let neg = (c = CHR ''-'');
              s = (if c = CHR ''+'' \<or> c = CHR ''-'' then cs else s0)
          in (case ParseUint s of
                Inl ErrSyntax \<Rightarrow> Inl ErrSyntax
              | Inl ErrRange \<Rightarrow> Inl ErrRange
              | Inr un \<Rightarrow>
                  if \<not> neg \<and> un \<ge> 2 ^ 63 then Inl ErrRange
                  else if neg \<and> un > 2 ^ 63 then Inl ErrRange
                  else Inr (if neg then - word_of_nat un else word_of_nat un)))"

section \<open>Package middlewares\<close>

text \<open>
  The values of a \<^verbatim>\<open>float64\<close> are left unspecified: the middleware does nothing with one
  but convert it to a \<^verbatim>\<open>uint\<close>, and Go leaves the result of that conversion to the
  implementation when the value has no \<^verbatim>\<open>uint\<close>. The conversion is an argument of the
  middleware.
\<close>

typedecl float64

text \<open>
  A value of type \<^verbatim>\<open>any\<close>, by its dynamic type: what \<^verbatim>\<open>encoding/json\<close> decodes into a
  \<^verbatim>\<open>jwt.MapClaims\<close> (\<^verbatim>\<open>nil\<close>, \<^verbatim>\<open>bool\<close>, \<^verbatim>\<open>float64\<close>, \<^verbatim>\<open>string\<close>, a slice or a map), and the
  \<^verbatim>\<open>uint\<close> that the middleware stores in the context.
\<close>

datatype any =
    any_nil
  | any_bool bool
  | any_float64 float64
  | any_string string
  | any_slice "any list"
  | any_map "(string \<times> any) list"
  | any_uint uint

text \<open>
  A parsed \<^verbatim>\<open>jwt.Token\<close>: whether it is valid (the signature and the registered claims
  such as the expiration were verified) and its claims, which \<^verbatim>\<open>jwt.Parse\<close> makes a
  \<^verbatim>\<open>jwt.MapClaims\<close>; \<open>OtherClaims\<close> is a claims value of any other type.
\<close>

datatype Claims = MapClaims "string \<Rightarrow> any option" | OtherClaims

record Token =
  Valid :: bool
  Claims :: Claims

text \<open>
  What the middleware reads and writes of a \<^verbatim>\<open>gin.Context\<close>: the headers of the request,
  the keys set for the handlers downstream, whether the chain was aborted, and the status
  and the JSON body written, if any.
\<close>

record Context =
  Header :: "string \<Rightarrow> string"
  Keys :: "string \<Rightarrow> any option"
  Aborted :: bool
  Written :: "(nat \<times> (string \<times> string) list) option"

definition GetHeader :: "Context \<Rightarrow> string \<Rightarrow> string" where
  "GetHeader c k = Header c k"

definition AbortWithStatusJSON :: "nat \<Rightarrow> (string \<times> string) list \<Rightarrow> Context \<Rightarrow> Context" where
  "AbortWithStatusJSON code obj c = c\<lparr>Aborted := True, Written := Some (code, obj)\<rparr>"

definition Set_key :: "string \<Rightarrow> any \<Rightarrow> Context \<Rightarrow> Context" where
  "Set_key k v c = c\<lparr>Keys := (Keys c)(k \<mapsto> v)\<rparr>"

definition StatusUnauthorized :: nat where
  "StatusUnauthorized = 401"

text \<open>\<^verbatim>\<open>global.CtxUserIDKey\<close>.\<close>

definition CtxUserIDKey :: string where
  "CtxUserIDKey = ''uid''"

text \<open>
  The type switch on the claim \<^verbatim>\<open>sub\<close> (a key that the map does not have reads as \<^verbatim>\<open>nil\<close>).
  The conversion \<^verbatim>\<open>uint(n)\<close> of an \<^verbatim>\<open>int\<close> keeps the 64 bits.
\<close>

definition set_subject :: "(float64 \<Rightarrow> uint) \<Rightarrow> any option \<Rightarrow> Context \<Rightarrow> Context" where
  "set_subject uint_of_float64 sub c =
     (case sub of
        Some (any_float64 v) \<Rightarrow> Set_key CtxUserIDKey (any_uint (uint_of_float64 v)) c
      | Some (any_string v) \<Rightarrow>
          (case Atoi v of
             Inr n \<Rightarrow> Set_key CtxUserIDKey (any_uint n) c
           | Inl _ \<Rightarrow> c)
      | _ \<Rightarrow> c)"

text \<open>
  \<^verbatim>\<open>middlewares.Auth\<close>. \<open>jwt_Parse raw secret\<close> is \<^verbatim>\<open>jwt.Parse\<close> with a key function that
  returns the secret; \<open>Next\<close> runs the handlers downstream (\<^verbatim>\<open>c.Next()\<close>).
\<close>

definition Auth ::
  "string \<Rightarrow> (string \<Rightarrow> string \<Rightarrow> Token \<times> error option) \<Rightarrow> (float64 \<Rightarrow> uint)
     \<Rightarrow> (Context \<Rightarrow> Context) \<Rightarrow> Context \<Rightarrow> Context"
where
  "Auth jwtSecret jwt_Parse uint_of_float64 Next c =
     (let auth = GetHeader c ''Authorization'' in
      if length auth < 8 \<or> take 7 auth \<noteq> ''Bearer '' then
        AbortWithStatusJSON StatusUnauthorized [(''error'', ''missing bearer token'')] c
      else
        let raw = drop 7 auth in
        (case jwt_Parse raw jwtSecret of
           (t, err) \<Rightarrow>
             if err \<noteq> None \<or> \<not> Valid t then
               AbortWithStatusJSON StatusUnauthorized [(''error'', ''invalid token'')] c
             else
               (case Claims t of
                  OtherClaims \<Rightarrow>
                    AbortWithStatusJSON StatusUnauthorized [(''error'', ''invalid claims'')] c
                | MapClaims claims \<Rightarrow>
                    Next (set_subject uint_of_float64 (claims ''sub'') c))))"

section \<open>Test doubles\<close>

text \<open>
  Collaborators with canned answers, as the mocks of the repository's tests
  (\<^verbatim>\<open>mocks.UserRepositoryMock\<close>, the Redis mock): every method answers by a function of its
  arguments and leaves the outside state, which is \<open>()\<close>, as it is. They give the theorems
  concrete inputs.
\<close>

definition UserRepositoryMock ::
  "(string \<Rightarrow> error + User) \<Rightarrow> (uint \<Rightarrow> error + User) \<Rightarrow> (User \<Rightarrow> error + User)
     \<Rightarrow> (User \<Rightarrow> error + User) \<Rightarrow> unit UserRepository"
where
  "UserRepositoryMock by_email by_id create update =
     \<lparr>Create = (\<lambda>u st. (create u, st)),
      FindByEmail = (\<lambda>e st. (by_email e, st)),
      FindByID = (\<lambda>i st. (by_id i, st)),
      Update = (\<lambda>u st. (update u, st)),
      Delete = (\<lambda>i st. (None, st)),
      List = (\<lambda>offset limit st. (Inr ([], 0), st))\<rparr>"

definition RedisMock :: "(string \<Rightarrow> error + bytes) \<Rightarrow> unit redis_Client" where
  "RedisMock get = \<lparr>Get = (\<lambda>k st. (get k, st)), Set = (\<lambda>k b ttl st. (None, st)),
                     Del = (\<lambda>k st. (None, st))\<rparr>"

text \<open>
  A stand-in for bcrypt, which like \<^verbatim>\<open>golang.org/x/crypto/bcrypt\<close> refuses a password of
  more than 72 bytes; its "hash" is the password behind a prefix.
\<close>

definition PackagesMock :: "unit packages" where
  "PackagesMock =
     \<lparr>bcrypt_GenerateFromPassword =
        (\<lambda>raw cost st.
           (if length raw > 72 then Inl (BcryptError ''bcrypt: password length exceeds 72 bytes'')
            else Inr (''$2a$10$'' @ raw), st)),
      bcrypt_CompareHashAndPassword =
        (\<lambda>hash raw. if hash = ''$2a$10$'' @ raw then None
                     else Some (BcryptError ''crypto/bcrypt: hashedPassword is not the hash of the given password'')),
      time_Now = (\<lambda>st. (0, st)),
      jwt_SignedString = (\<lambda>sub exp iat eml secret. Inr (''token.'' @ eml))\<rparr>"

definition world0 :: "unit world" where
  "world0 = \<lparr>outside = (), calls = []\<rparr>"

definition ahmed :: User where
  "ahmed = \<lparr>ID = 5, Name = ''Ahmed'', Email = ''a@b.c'', Password = ''$2a$10$good'',
            CreatedAt = 0, UpdatedAt = 0\<rparr>"

section \<open>The name normalizer\<close>

text \<open>
  \<^verbatim>\<open>NormalizeName\<close> upper-cases the one-byte string \<^verbatim>\<open>s[:1]\<close>. A byte of ASCII is a character
  and gets its upper case. A byte from \<open>0x80\<close> on is the first byte of a longer character
  (or a stray byte): alone it is not valid UTF-8, and \<^verbatim>\<open>strings.ToUpper\<close> replaces it by the
  three bytes of \<open>U+FFFD\<close>.
\<close>

lemma ToUpper_one_byte:
  "ToUpper [c] =
     (if byte c < RuneSelf
      then [if 0x61 \<le> byte c \<and> byte c \<le> 0x7A then char_of (byte c - 0x20) else c]
      else [CHR 0xEF, CHR 0xBF, CHR 0xBD])"
proof (cases "byte c < RuneSelf")
  case True
  then show ?thesis by (simp add: ToUpper_def)
next
  case False
  have d: "DecodeRuneInString [c] = (RuneError, 1)"
    using False by (simp add: DecodeRuneInString_def Let_def RuneSelf_def)
  have "strings_Map unicode_ToUpper [c]
          = EncodeRune (unicode_ToUpper RuneError) @ strings_Map unicode_ToUpper []"
    by (subst strings_Map.simps) (simp add: d)
  also have "strings_Map unicode_ToUpper [] = []"
    by (subst strings_Map.simps) simp
  also have "EncodeRune (unicode_ToUpper RuneError) = [CHR 0xEF, CHR 0xBF, CHR 0xBD]"
    by (simp add: unicode_ToUpper_def RuneError_def EncodeRune_def Let_def char_of_eq_iff)
  finally show ?thesis using False by (simp add: ToUpper_def)
qed

text \<open>
  What \<^verbatim>\<open>NormalizeName\<close> returns, by the trimmed string: nothing for an empty one; the first
  byte in upper case and the rest for one that starts in ASCII; \<open>U+FFFD\<close> and the rest,
  without the first byte, for any other.
\<close>

lemma NormalizeName_cases:
  "NormalizeName s =
     (case TrimSpace s of
        [] \<Rightarrow> []
      | c # cs \<Rightarrow>
          if byte c < RuneSelf
          then (if 0x61 \<le> byte c \<and> byte c \<le> 0x7A then char_of (byte c - 0x20) else c) # cs
          else [CHR 0xEF, CHR 0xBF, CHR 0xBD] @ cs)"
  by (simp add: NormalizeName_def Let_def ToUpper_one_byte split: list.splits)

text \<open>The five examples of the specification, all of them ASCII.\<close>

lemma NormalizeName_examples:
  "NormalizeName [] = [] \<and> NormalizeName ''   '' = [] \<and> NormalizeName ''a'' = ''A''
   \<and> NormalizeName ''  aHMED '' = ''AHMED'' \<and> NormalizeName ''Ahmed'' = ''Ahmed''"
  by code_simp

text \<open>The name \<^verbatim>\<open>eric\<close> with an e acute has no white space to trim.\<close>

lemma TrimSpace_eric:
  "TrimSpace [CHR 0xC3, CHR 0xA9, CHR ''r'', CHR ''i'', CHR ''c'']
     = [CHR 0xC3, CHR 0xA9, CHR ''r'', CHR ''i'', CHR ''c'']"
proof -
  let ?s = "[CHR 0xC3, CHR 0xA9, CHR ''r'', CHR ''i'', CHR ''c'']"
  have decode: "DecodeRuneInString ?s = (0xE9, 2)"
    by (simp add: DecodeRuneInString_def Let_def byte_def between_def RuneSelf_def)
  have left: "TrimLeftFunc IsSpace ?s = ?s"
    by (subst TrimLeftFunc.simps) (simp add: decode IsSpace_def)
  have last: "DecodeLastRuneInString ?s = (0x63, 1)"
    by (simp add: DecodeLastRuneInString_def Let_def byte_def RuneSelf_def)
  have idx: "lastIndexFunc IsSpace ?s = Some 4"
    by (subst lastIndexFunc.simps) (simp add: last IsSpace_def)
  have right: "TrimRightFunc IsSpace ?s = ?s"
    by (simp add: TrimRightFunc_def idx byte_def RuneSelf_def)
  show ?thesis
    by (simp add: TrimSpace_def TrimFunc_def left right byte_def RuneSelf_def)
qed

text \<open>
  C3. The claim: for every string, \<^verbatim>\<open>Normalize\<close> trims the white space and returns the
  trimmed string with its first character in upper case and the remainder unchanged. The
  code does so when the trimmed string starts with an ASCII character
  (\<open>NormalizeName_cases\<close>, \<open>NormalizeName_examples\<close>). It does not for the name \<^verbatim>\<open>eric\<close>
  written with an e acute, the bytes \<open>C3 A9 72 69 63\<close> in UTF-8: the claim asks for the
  same name with a capital E acute, the bytes \<open>C3 89 72 69 63\<close>, and the code returns \<open>EF BF BD A9 72 69 63\<close>, the replacement
  character \<open>U+FFFD\<close>, then the second byte of the letter left alone, then \<^verbatim>\<open>ric\<close>. The
  first character is not upper-cased and the remainder is not left unchanged.
\<close>

theorem NormalizeName_non_ascii_first_character:
  "NormalizeName [CHR 0xC3, CHR 0xA9, CHR ''r'', CHR ''i'', CHR ''c'']
     = [CHR 0xEF, CHR 0xBF, CHR 0xBD, CHR 0xA9, CHR ''r'', CHR ''i'', CHR ''c'']
   \<and> NormalizeName [CHR 0xC3, CHR 0xA9, CHR ''r'', CHR ''i'', CHR ''c'']
     \<noteq> [CHR 0xC3, CHR 0x89, CHR ''r'', CHR ''i'', CHR ''c'']"
  by (simp add: NormalizeName_cases TrimSpace_eric byte_def RuneSelf_def)

section \<open>Calls and traces\<close>

text \<open>The calls of the logger at one place of the service: one if there is a logger.\<close>

definition logged :: "'s userService \<Rightarrow> string \<Rightarrow> string \<Rightarrow> meta \<Rightarrow> call list" where
  "logged s level msg m = (case log s of None \<Rightarrow> [] | Some l \<Rightarrow> [Call_Log level msg m])"

lemma calls_logs [simp]: "calls (logs s level msg m w) = calls w @ logged s level msg m"
  by (simp add: logs_def logged_def split: option.splits)

lemma in_logged [simp]:
  "c \<in> set (logged s level msg m) \<longleftrightarrow> log s \<noteq> None \<and> c = Call_Log level msg m"
  by (cases "log s") (auto simp: logged_def)

lemma filter_logged [simp]: "(\<And>a b c. \<not> K (Call_Log a b c)) \<Longrightarrow> filter K (logged s level msg m) = []"
  by (cases "log s") (auto simp: logged_def)

lemma call_eq:
  "call c f w = (fst (f (outside w)),
                 \<lparr>outside = snd (f (outside w)), calls = calls w @ [c (fst (f (outside w)))]\<rparr>)"
  by (simp add: call_def split: prod.splits)

lemma made_append [simp]: "made w \<lparr>outside = x, calls = calls w @ tr\<rparr> = tr"
  by (simp add: made_def)

lemma made_eq: "calls w' = calls w @ tr \<Longrightarrow> made w w' = tr"
  by (simp add: made_def)

lemma len_positive_Marshal [simp]: "len_positive (json_Marshal u)"
  by (simp add: len_positive_def json_Marshal_def)

section \<open>Register with an email that exists\<close>

text \<open>
  C6. For every call of \<^verbatim>\<open>Register\<close> whose look-up by email finds a user (the store
  returns no error), \<^verbatim>\<open>Register\<close> fails with the error \<^verbatim>\<open>email already exists\<close>, and the
  look-up is all it asks of its collaborators, but for one line of the log: it hashes no
  password, inserts nothing and writes nothing to the cache.
\<close>

theorem Register_email_exists:
  assumes "FindByEmail (repo s) (Register_Email req) (outside w) = (Inr u, x)"
  shows "fst (Register P s req w) = Inl (ErrorsNew ''email already exists'')
    \<and> made w (snd (Register P s req w))
        = Call_FindByEmail (Register_Email req) (Inr u)
          # logged s ''warn'' ''register email exists'' [(''email'', Register_Email req)]
    \<and> filter (\<lambda>c. is_HashPassword c \<or> is_Create c \<or> is_Set c) (made w (snd (Register P s req w)))
        = []"
  using assms by (simp add: Register_def call_eq made_eq)

text \<open>The test \<^verbatim>\<open>TestUserService_Register_EmailExists\<close>, with a Redis that would accept a write.\<close>

theorem Register_email_exists_witness:
  "fst (Register PackagesMock
          \<lparr>repo = UserRepositoryMock (\<lambda>e. Inr ahmed) (\<lambda>i. Inl ErrRecordNotFound) Inr Inr,
           rdb = Some (RedisMock (\<lambda>k. Inl RedisNil)), log = None\<rparr>
          \<lparr>Register_Name = ''  aHMED  '', Register_Email = ''a@b.c'', Register_Password = ''123456''\<rparr>
          world0)
     = Inl (ErrorsNew ''email already exists'')
   \<and> made world0
        (snd (Register PackagesMock
          \<lparr>repo = UserRepositoryMock (\<lambda>e. Inr ahmed) (\<lambda>i. Inl ErrRecordNotFound) Inr Inr,
           rdb = Some (RedisMock (\<lambda>k. Inl RedisNil)), log = None\<rparr>
          \<lparr>Register_Name = ''  aHMED  '', Register_Email = ''a@b.c'', Register_Password = ''123456''\<rparr>
          world0))
     = [Call_FindByEmail ''a@b.c'' (Inr ahmed)]"
  using Register_email_exists
    [of "\<lparr>repo = UserRepositoryMock (\<lambda>e. Inr ahmed) (\<lambda>i. Inl ErrRecordNotFound) Inr Inr,
          rdb = Some (RedisMock (\<lambda>k. Inl RedisNil)), log = None\<rparr>"
        "\<lparr>Register_Name = ''  aHMED  '', Register_Email = ''a@b.c'', Register_Password = ''123456''\<rparr>"
        world0 ahmed "()" PackagesMock]
  by (simp add: UserRepositoryMock_def world0_def logged_def)

section \<open>Login failures\<close>

text \<open>
  C2. For every pair of calls of \<^verbatim>\<open>Login\<close>, one with an email whose look-up fails (no
  stored user matches, or the store fails otherwise) and one with the email of a stored
  user and a password that the stored hash does not accept, both calls fail with the same
  error, \<^verbatim>\<open>invalid credentials\<close>, whatever the services, secrets and worlds are: the
  error, its message and the result as a whole are equal, so the caller cannot tell the
  two causes apart.
\<close>

theorem Login_failures_indistinguishable:
  assumes "FindByEmail (repo s1) (Login_Email req1) (outside w1) = (Inl e, x1)"
    and "FindByEmail (repo s2) (Login_Email req2) (outside w2) = (Inr u, x2)"
    and "\<not> CheckPassword P2 (Password u) (Login_Password req2)"
  shows "fst (Login P1 s1 req1 secret1 exp1 w1) = Inl (ErrorsNew ''invalid credentials'')
    \<and> fst (Login P2 s2 req2 secret2 exp2 w2) = Inl (ErrorsNew ''invalid credentials'')
    \<and> fst (Login P1 s1 req1 secret1 exp1 w1) = fst (Login P2 s2 req2 secret2 exp2 w2)"
  using assms by (simp add: Login_def call_eq)

text \<open>
  An unknown email, as in \<^verbatim>\<open>TestUserService_Login_Invalid\<close>, against the email of the stored
  user \<open>ahmed\<close> with a wrong password.
\<close>

theorem Login_failures_indistinguishable_witness:
  "fst (Login PackagesMock
          \<lparr>repo = UserRepositoryMock (\<lambda>e. if e = ''a@b.c'' then Inr ahmed else Inl ErrRecordNotFound)
                    (\<lambda>i. Inl ErrRecordNotFound) Inr Inr,
           rdb = None, log = None\<rparr>
          \<lparr>Login_Email = ''x@y.z'', Login_Password = ''pw''\<rparr> ''sec'' (60 * Minute) world0)
     = Inl (ErrorsNew ''invalid credentials'')
   \<and> fst (Login PackagesMock
          \<lparr>repo = UserRepositoryMock (\<lambda>e. if e = ''a@b.c'' then Inr ahmed else Inl ErrRecordNotFound)
                    (\<lambda>i. Inl ErrRecordNotFound) Inr Inr,
           rdb = None, log = None\<rparr>
          \<lparr>Login_Email = ''a@b.c'', Login_Password = ''bad''\<rparr> ''sec'' (60 * Minute) world0)
     = Inl (ErrorsNew ''invalid credentials'')"
  using Login_failures_indistinguishable
    [of "\<lparr>repo = UserRepositoryMock (\<lambda>e. if e = ''a@b.c'' then Inr ahmed else Inl ErrRecordNotFound)
                    (\<lambda>i. Inl ErrRecordNotFound) Inr Inr,
           rdb = None, log = None\<rparr>"
        "\<lparr>Login_Email = ''x@y.z'', Login_Password = ''pw''\<rparr>" world0 ErrRecordNotFound "()"
        "\<lparr>repo = UserRepositoryMock (\<lambda>e. if e = ''a@b.c'' then Inr ahmed else Inl ErrRecordNotFound)
                    (\<lambda>i. Inl ErrRecordNotFound) Inr Inr,
           rdb = None, log = None\<rparr>"
        "\<lparr>Login_Email = ''a@b.c'', Login_Password = ''bad''\<rparr>" world0 ahmed "()"
        PackagesMock PackagesMock "''sec''" "60 * Minute" "''sec''" "60 * Minute"]
  by (simp add: UserRepositoryMock_def world0_def CheckPassword_def PackagesMock_def ahmed_def)

end
